theory Spec2Isabelle
  imports Main "HOL-Library.Word"
begin

section \<open>lambda-dialogflow: a shallow embedding of \<open>lambdadialogflow.go\<close>\<close>

text \<open>
  The package routes a Dialogflow webhook request, received through the AWS API gateway,
  to a handler registered under the request's action, and serialises the response the
  handler built. The embedding follows \<open>src/lambdadialogflow.go\<close>. Go pointers are
  \<open>option\<close> values (\<open>None\<close> is \<open>nil\<close>), a dereference of \<open>nil\<close> is the fault
  \<open>NilPointerDereference\<close>, and every method that can panic returns \<open>fault + 'a\<close>.
  Fields of the imported protobuf types carry the name of the Go field behind a short
  prefix for their struct, because a record field is a global constant:
  \<open>Req_\<close> (WebhookRequest), \<open>QR_\<close> (QueryResult), \<open>ODIR_\<close> (OriginalDetectIntentRequest),
  \<open>Res_\<close> (WebhookResponse), \<open>Ctx_\<close> (Context), and \<open>ProxyReq_\<close> for the gateway's
  request. Only the fields the package reads or writes are modelled.
\<close>

subsection \<open>The protobuf values (\<open>ptypes/struct\<close>)\<close>

text \<open>
  A \<open>float64\<close> is its IEEE-754 bit pattern; the package never computes with it, and the
  constant \<open>0\<close> it returns is the pattern \<open>0\<close>. An \<open>int32\<close> is a 32-bit word.
\<close>

type_synonym float64 = "64 word"
type_synonym int32 = "32 word"

text \<open>
  \<open>Value\<close> is the \<open>oneof\<close> of \<open>structpb.Value\<close>; \<open>Value_unset\<close> is a \<open>Value\<close> whose
  \<open>Kind\<close> is \<open>nil\<close>. The package never looks inside a nested struct or list.
\<close>

datatype Value =
    Value_unset
  | Value_NullValue
  | Value_NumberValue float64
  | Value_StringValue string
  | Value_BoolValue bool
  | Value_StructValue "string \<Rightarrow> Value option"
  | Value_ListValue "Value list"

text \<open>
  \<open>Struct.Fields\<close> is a Go \<open>map[string]*Value\<close>, which may be the \<open>nil\<close> map (\<open>None\<close>).
  Indexing a Go map of pointers gives \<open>nil\<close> for a key that is absent, and indexing the
  \<open>nil\<close> map gives \<open>nil\<close> for every key: \<open>map_index\<close>.
\<close>

record Struct =
  Fields :: "(string \<rightharpoonup> Value) option"

fun GetFields :: "Struct option \<Rightarrow> (string \<rightharpoonup> Value) option" where
  "GetFields None = None"
| "GetFields (Some x) = Fields x"

fun map_index :: "('k \<rightharpoonup> 'v) option \<Rightarrow> 'k \<Rightarrow> 'v option" where
  "map_index None k = None"
| "map_index (Some m) k = m k"

text \<open>The generated getters are safe on a \<open>nil\<close> receiver and on another kind.\<close>

fun GetStringValue :: "Value option \<Rightarrow> string" where
  "GetStringValue (Some (Value_StringValue s)) = s"
| "GetStringValue _ = ''''"

fun GetNumberValue :: "Value option \<Rightarrow> float64" where
  "GetNumberValue (Some (Value_NumberValue n)) = n"
| "GetNumberValue _ = 0"

subsection \<open>The Dialogflow messages\<close>

record QueryResult =
  QR_Action :: string
  QR_Parameters :: "Struct option"

record OriginalDetectIntentRequest =
  ODIR_Payload :: "Struct option"

record WebhookRequest =
  Req_Session :: string
  Req_QueryResult :: "QueryResult option"
  Req_OriginalDetectIntentRequest :: "OriginalDetectIntentRequest option"

record Context =
  Ctx_Name :: string
  Ctx_LifespanCount :: int32
  Ctx_Parameters :: "Struct option"

record WebhookResponse =
  Res_FulfillmentText :: string
  Res_OutputContexts :: "Context list"
  Res_Payload :: "Struct option"

text \<open>\<open>&df.WebhookResponse{}\<close>: every field has its zero value.\<close>

definition empty_WebhookResponse :: WebhookResponse where
  "empty_WebhookResponse =
     \<lparr>Res_FulfillmentText = '''', Res_OutputContexts = [], Res_Payload = None\<rparr>"

subsection \<open>The agent\<close>

datatype fault = NilPointerDereference | HandlerPanic string

record Agent =
  req :: WebhookRequest
  res :: WebhookResponse

text \<open>
  \<open>newAgent\<close> is the only place where the package builds an agent, and it sets both
  pointers, so \<open>req\<close> and \<open>res\<close> are never \<open>nil\<close>. A handler is application code:
  it receives the agent, may change what the two pointers point to through the methods
  below or through \<open>Request()\<close> and \<open>Response()\<close>, and either returns or panics.
\<close>

type_synonym WebhookHandler = "Agent \<Rightarrow> fault + Agent"

definition Request :: "Agent \<Rightarrow> WebhookRequest" where
  "Request w = req w"

definition Response :: "Agent \<Rightarrow> WebhookResponse" where
  "Response w = res w"

text \<open>\<open>w.req.QueryResult.Action\<close> reads a field through the pointer \<open>QueryResult\<close>.\<close>

definition Action :: "Agent \<Rightarrow> fault + string" where
  "Action w =
     (case Req_QueryResult (req w) of
        None \<Rightarrow> Inl NilPointerDereference
      | Some qr \<Rightarrow> Inr (QR_Action qr))"

definition Session :: "Agent \<Rightarrow> string" where
  "Session w = Req_Session (req w)"

text \<open>
  \<open>getField\<close>: \<open>w.req.QueryResult.Parameters\<close> and
  \<open>w.req.OriginalDetectIntentRequest.Payload\<close> are plain field reads through a pointer;
  \<open>GetFields()\<close> and the map index are safe on \<open>nil\<close>. The second read happens only
  when the first lookup gave \<open>nil\<close>.
\<close>

definition getField :: "Agent \<Rightarrow> string \<Rightarrow> fault + Value option" where
  "getField w name =
     (case Req_QueryResult (req w) of
        None \<Rightarrow> Inl NilPointerDereference
      | Some qr \<Rightarrow>
          (let f = map_index (GetFields (QR_Parameters qr)) name in
           if f \<noteq> None then Inr f
           else (case Req_OriginalDetectIntentRequest (req w) of
                   None \<Rightarrow> Inl NilPointerDereference
                 | Some odir \<Rightarrow> Inr (map_index (GetFields (ODIR_Payload odir)) name))))"

definition GetStringParam :: "Agent \<Rightarrow> string \<Rightarrow> fault + string" where
  "GetStringParam w name =
     (case getField w name of
        Inl e \<Rightarrow> Inl e
      | Inr f \<Rightarrow> if f \<noteq> None then Inr (GetStringValue f) else Inr '''')"

definition GetNumberParam :: "Agent \<Rightarrow> string \<Rightarrow> fault + float64" where
  "GetNumberParam w name =
     (case getField w name of
        Inl e \<Rightarrow> Inl e
      | Inr f \<Rightarrow> if f \<noteq> None then Inr (GetNumberValue f) else Inr 0)"

text \<open>
  \<open>AddPayload\<close> stores into the existing map when the payload and its map are there,
  and otherwise replaces the payload by a struct with the one entry.
\<close>

definition AddPayload :: "string \<Rightarrow> string \<Rightarrow> Agent \<Rightarrow> Agent" where
  "AddPayload name v w =
     (let stringValue = Value_StringValue v in
      case Res_Payload (Response w) of
        Some p \<Rightarrow>
          (case Fields p of
             Some m \<Rightarrow>
               w\<lparr>res := (res w)\<lparr>Res_Payload := Some (p\<lparr>Fields := Some (m(name \<mapsto> stringValue))\<rparr>)\<rparr>\<rparr>
           | None \<Rightarrow>
               w\<lparr>res := (res w)\<lparr>Res_Payload := Some \<lparr>Fields = Some [name \<mapsto> stringValue]\<rparr>\<rparr>\<rparr>)
      | None \<Rightarrow>
          w\<lparr>res := (res w)\<lparr>Res_Payload := Some \<lparr>Fields = Some [name \<mapsto> stringValue]\<rparr>\<rparr>\<rparr>)"

definition Say :: "string \<Rightarrow> Agent \<Rightarrow> Agent" where
  "Say someText w = w\<lparr>res := (res w)\<lparr>Res_FulfillmentText := someText\<rparr>\<rparr>"

definition SetContext :: "string \<Rightarrow> int32 \<Rightarrow> Agent \<Rightarrow> Agent" where
  "SetContext contextname lifetime w =
     (let ctx = \<lparr>Ctx_Name = contextname, Ctx_LifespanCount = lifetime, Ctx_Parameters = None\<rparr>
      in w\<lparr>res := (res w)\<lparr>Res_OutputContexts := Res_OutputContexts (res w) @ [ctx]\<rparr>\<rparr>)"

subsection \<open>\<open>encoding/base64\<close>: the standard encoding\<close>

text \<open>
  \<open>base64.StdEncoding\<close> belongs to the Go standard library, not to this repository.
  It is the encoding of RFC 4648, section 4, with the padding character \<open>=\<close>; the
  definitions follow the library's \<open>Encode\<close>, which packs three bytes into a 24-bit
  value and emits the alphabet's characters for its four 6-bit groups (\<open>val >> 18 & 0x3F\<close>
  is \<open>val div 262144 mod 64\<close>), and pads a last group of one or two bytes. A Go string
  is a sequence of bytes, as an Isabelle \<open>string\<close> is.
\<close>

definition encodeStd :: string where
  "encodeStd = ''ABCDEFGHIJKLMNOPQRSTUVWXYZabcdefghijklmnopqrstuvwxyz0123456789+/''"

definition StdPadding :: char where
  "StdPadding = CHR ''=''"

definition encode6 :: "nat \<Rightarrow> char" where
  "encode6 v = encodeStd ! (v mod 64)"

fun EncodeToString :: "string \<Rightarrow> string" where
  "EncodeToString (a # b # c # src) =
     (let val = of_char a * 65536 + of_char b * 256 + (of_char c :: nat) in
      encode6 (val div 262144) # encode6 (val div 4096) # encode6 (val div 64) # encode6 val
        # EncodeToString src)"
| "EncodeToString [a, b] =
     (let val = of_char a * 65536 + of_char b * (256 :: nat) in
      [encode6 (val div 262144), encode6 (val div 4096), encode6 (val div 64), StdPadding])"
| "EncodeToString [a] =
     (let val = of_char a * (65536 :: nat) in
      [encode6 (val div 262144), encode6 (val div 4096), StdPadding, StdPadding])"
| "EncodeToString [] = []"

text \<open>
  The decoder is the inverse table of the alphabet (the library's \<open>decodeMap\<close>) applied
  to groups of four characters; padding is accepted in the last group only, and any
  other character is an error (\<open>None\<close>).
\<close>

fun index_of :: "'a list \<Rightarrow> 'a \<Rightarrow> nat option" where
  "index_of [] c = None"
| "index_of (x # xs) c = (if x = c then Some 0 else map_option Suc (index_of xs c))"

definition decode6 :: "char \<Rightarrow> nat option" where
  "decode6 c = index_of encodeStd c"

fun DecodeString :: "string \<Rightarrow> string option" where
  "DecodeString [] = Some []"
| "DecodeString (c1 # c2 # c3 # c4 # rest) =
     (case (decode6 c1, decode6 c2) of
        (Some v1, Some v2) \<Rightarrow>
          (if rest = [] \<and> c4 = StdPadding then
             (if c3 = StdPadding then
                Some [char_of ((v1 * 262144 + v2 * 4096) div 65536)]
              else
                (case decode6 c3 of
                   Some v3 \<Rightarrow>
                     (let val = v1 * 262144 + v2 * 4096 + v3 * 64 in
                      Some [char_of (val div 65536), char_of (val div 256)])
                 | None \<Rightarrow> None))
           else
             (case (decode6 c3, decode6 c4) of
                (Some v3, Some v4) \<Rightarrow>
                  (let val = v1 * 262144 + v2 * 4096 + v3 * 64 + v4 in
                   map_option
                     (\<lambda>out. char_of (val div 65536) # char_of (val div 256) # char_of val # out)
                     (DecodeString rest))
              | _ \<Rightarrow> None))
      | _ \<Rightarrow> None)"
| "DecodeString _ = None"

definition AddJSONPayloadBase64 :: "string \<Rightarrow> string \<Rightarrow> Agent \<Rightarrow> Agent" where
  "AddJSONPayloadBase64 name v w =
     (let encoded = EncodeToString v in AddPayload name encoded w)"

subsection \<open>The handler registry\<close>

text \<open>
  \<open>handlerMap\<close> is a package-level \<open>map[string]WebhookHandler\<close>, passed explicitly
  here. A Go function value may be \<open>nil\<close> (\<open>None\<close>); the index expression gives \<open>nil\<close>
  for an absent key and for a key that holds \<open>nil\<close> alike, and \<open>HandleRequest\<close> only
  compares the result with \<open>nil\<close>.
\<close>

type_synonym handlers = "string \<Rightarrow> WebhookHandler option"

definition handlerMap_initial :: handlers where
  "handlerMap_initial = Map.empty"

definition Register :: "string \<Rightarrow> WebhookHandler option \<Rightarrow> handlers \<Rightarrow> handlers" where
  "Register action handler handlerMap = handlerMap(action := handler)"

subsection \<open>Dispatch\<close>

text \<open>
  The gateway's request and response (\<open>events.APIGatewayProxyRequest\<close>,
  \<open>events.APIGatewayProxyResponse\<close>). \<open>Headers\<close> is a Go map, \<open>nil\<close> (\<open>None\<close>) in a
  response built from the status code alone. A Go \<open>error\<close> is its message; \<open>None\<close>
  is the \<open>nil\<close> error.
\<close>

type_synonym error = string

record APIGatewayProxyRequest =
  ProxyReq_Body :: string

record APIGatewayProxyResponse =
  StatusCode :: int
  Headers :: "(string \<rightharpoonup> string) option"
  Body :: string
  IsBase64Encoded :: bool

text \<open>\<open>events.APIGatewayProxyResponse{StatusCode: n}\<close>\<close>

definition status_only :: "int \<Rightarrow> APIGatewayProxyResponse" where
  "status_only n = \<lparr>StatusCode = n, Headers = None, Body = '''', IsBase64Encoded = False\<rparr>"

definition newAgent :: "WebhookRequest \<Rightarrow> Agent \<times> error option" where
  "newAgent webhookRequest = (\<lparr>req = webhookRequest, res = empty_WebhookResponse\<rparr>, None)"

text \<open>
  \<open>HandleRequest\<close>. The two calls into \<open>jsonpb\<close> are parameters: \<open>Unmarshal\<close> gives the
  decoded request or the decoder's error, \<open>Marshal\<close> the encoded response or the
  encoder's error. The result is a fault when the function panics, and otherwise the
  pair it returns. The statements are in the order of the source: decode, build the
  agent, read the action, index the registry, call the handler, encode.
\<close>

definition HandleRequest ::
  "(string \<Rightarrow> error + WebhookRequest) \<Rightarrow> (WebhookResponse \<Rightarrow> error + string) \<Rightarrow> handlers
     \<Rightarrow> APIGatewayProxyRequest \<Rightarrow> fault + (APIGatewayProxyResponse \<times> error option)" where
  "HandleRequest Unmarshal Marshal handlerMap request =
     (case Unmarshal (ProxyReq_Body request) of
        Inl err \<Rightarrow> Inr (status_only 400, Some (''unable to decode webhook request: '' @ err))
      | Inr webhookRequest \<Rightarrow>
          (case newAgent webhookRequest of
             (w, err) \<Rightarrow>
               (case Action w of
                  Inl f \<Rightarrow> Inl f
                | Inr action \<Rightarrow>
                    (case handlerMap action of
                       None \<Rightarrow>
                         Inr (status_only 404, Some (''no handler defined for action: '' @ action))
                     | Some webhookHandler \<Rightarrow>
                         (case webhookHandler w of
                            Inl f \<Rightarrow> Inl f
                          | Inr w' \<Rightarrow>
                              (case Marshal (res w') of
                                 Inl err \<Rightarrow> Inr (status_only 500, Some err)
                               | Inr buf \<Rightarrow>
                                   Inr (\<lparr>StatusCode = 200,
                                         Headers = Some [''Content-Type'' \<mapsto> ''application/json''],
                                         Body = buf,
                                         IsBase64Encoded = False\<rparr>, None)))))))"

subsection \<open>Handlers that only call the mutators\<close>

text \<open>
  A handler that builds its response through the agent's mutators performs a sequence
  of calls; \<open>perform_all\<close> runs them in order.
\<close>

datatype mutation =
    Call_Say string
  | Call_SetContext string int32
  | Call_AddPayload string string
  | Call_AddJSONPayloadBase64 string string

fun perform :: "mutation \<Rightarrow> Agent \<Rightarrow> Agent" where
  "perform (Call_Say someText) w = Say someText w"
| "perform (Call_SetContext contextname lifetime) w = SetContext contextname lifetime w"
| "perform (Call_AddPayload name v) w = AddPayload name v w"
| "perform (Call_AddJSONPayloadBase64 name v) w = AddJSONPayloadBase64 name v w"

fun perform_all :: "mutation list \<Rightarrow> Agent \<Rightarrow> Agent" where
  "perform_all [] w = w"
| "perform_all (m # ms) w = perform_all ms (perform m w)"

text \<open>The context entries a sequence of calls asks for: one for each \<open>SetContext\<close>, in order.\<close>

fun contexts_set :: "mutation list \<Rightarrow> Context list" where
  "contexts_set [] = []"
| "contexts_set (Call_SetContext contextname lifetime # ms) =
     \<lparr>Ctx_Name = contextname, Ctx_LifespanCount = lifetime, Ctx_Parameters = None\<rparr>
       # contexts_set ms"
| "contexts_set (_ # ms) = contexts_set ms"

fun is_SetContext :: "mutation \<Rightarrow> bool" where
  "is_SetContext (Call_SetContext _ _) = True"
| "is_SetContext _ = False"

subsection \<open>The earlier revision of the getters (\<open>src/unnamed/part_000\<close>)\<close>

text \<open>
  A second copy of the file reads a parameter from \<open>queryResult.parameters\<close> only; the
  rest of it agrees with the file above, except that it encodes the response with
  \<open>json.Marshal\<close> and \<open>json.HTMLEscape\<close>, which \<open>HandleRequest\<close> takes as \<open>Marshal\<close>.
\<close>

definition GetStringParam_part_000 :: "Agent \<Rightarrow> string \<Rightarrow> fault + string" where
  "GetStringParam_part_000 w name =
     (case Req_QueryResult (req w) of
        None \<Rightarrow> Inl NilPointerDereference
      | Some qr \<Rightarrow> Inr (GetStringValue (map_index (GetFields (QR_Parameters qr)) name)))"

definition GetNumberParam_part_000 :: "Agent \<Rightarrow> string \<Rightarrow> fault + float64" where
  "GetNumberParam_part_000 w name =
     (case Req_QueryResult (req w) of
        None \<Rightarrow> Inl NilPointerDereference
      | Some qr \<Rightarrow> Inr (GetNumberValue (map_index (GetFields (QR_Parameters qr)) name)))"

subsection \<open>Sample requests, handlers and codec results\<close>

text \<open>
  The inputs the examples below run on. \<open>hello\<close> is the handler of the README;
  \<open>panicking_handler\<close> panics; \<open>unset_value_handler\<close> stores, through \<open>Response()\<close>, a
  payload entry whose \<open>Kind\<close> is unset, which \<open>jsonpb\<close> refuses to encode.
\<close>

definition hello :: WebhookHandler where
  "hello agent =
     (case GetStringParam agent ''name'' of
        Inl f \<Rightarrow> Inl f
      | Inr name \<Rightarrow> Inr (Say (''Hello, '' @ name) agent))"

definition panicking_handler :: WebhookHandler where
  "panicking_handler agent = Inl (HandlerPanic ''boom'')"

definition unset_value_handler :: WebhookHandler where
  "unset_value_handler agent =
     Inr (agent\<lparr>res := (Response agent)\<lparr>Res_Payload :=
            Some \<lparr>Fields = Some [''x'' \<mapsto> Value_unset]\<rparr>\<rparr>\<rparr>)"

definition body_hello :: string where
  \<open>body_hello =
     ''{"session":"s1","queryResult":{"action":"hello","parameters":{"name":"Ada"}}}''\<close>

definition request_hello :: WebhookRequest where
  "request_hello =
     \<lparr>Req_Session = ''s1'',
      Req_QueryResult = Some
        \<lparr>QR_Action = ''hello'',
         QR_Parameters = Some \<lparr>Fields = Some [''name'' \<mapsto> Value_StringValue ''Ada'']\<rparr>\<rparr>,
      Req_OriginalDetectIntentRequest = None\<rparr>"

definition body_hello_bare :: string where
  \<open>body_hello_bare = ''{"queryResult":{"action":"hello"}}''\<close>

definition request_hello_bare :: WebhookRequest where
  "request_hello_bare =
     \<lparr>Req_Session = '''',
      Req_QueryResult = Some \<lparr>QR_Action = ''hello'', QR_Parameters = None\<rparr>,
      Req_OriginalDetectIntentRequest = None\<rparr>"

definition body_unregistered :: string where
  \<open>body_unregistered = ''{"queryResult":{"action":"unregistered"}}''\<close>

definition request_unregistered :: WebhookRequest where
  "request_unregistered =
     \<lparr>Req_Session = '''',
      Req_QueryResult = Some \<lparr>QR_Action = ''unregistered'', QR_Parameters = None\<rparr>,
      Req_OriginalDetectIntentRequest = None\<rparr>"

definition body_no_queryResult :: string where
  \<open>body_no_queryResult = ''{"session":"s1"}''\<close>

definition request_no_queryResult :: WebhookRequest where
  "request_no_queryResult =
     \<lparr>Req_Session = ''s1'', Req_QueryResult = None, Req_OriginalDetectIntentRequest = None\<rparr>"

text \<open>
  A request with both parameter sources: \<open>count\<close> is the number 3 (the bit pattern of
  the \<open>float64\<close> 3.0) in the parameters and a string in the original payload, \<open>name\<close> is
  in the original payload only.
\<close>

definition request_two_tier :: WebhookRequest where
  "request_two_tier =
     \<lparr>Req_Session = ''s1'',
      Req_QueryResult = Some
        \<lparr>QR_Action = ''hello'',
         QR_Parameters = Some \<lparr>Fields = Some [''count'' \<mapsto> Value_NumberValue 0x4008000000000000]\<rparr>\<rparr>,
      Req_OriginalDetectIntentRequest = Some
        \<lparr>ODIR_Payload = Some \<lparr>Fields = Some
           [''count'' \<mapsto> Value_StringValue ''three'', ''name'' \<mapsto> Value_StringValue ''Ada'']\<rparr>\<rparr>\<rparr>"

definition body_malformed :: string where
  "body_malformed = ''{''"

text \<open>
  The results of \<open>jsonpb.Unmarshal\<close> on the sample bodies, and of the encoder on the
  responses the sample handlers build (a fulfillment text, or the unset payload entry).
  Both are tables for the examples; on other arguments they are not \<open>jsonpb\<close>.
\<close>

definition sample_Unmarshal :: "string \<Rightarrow> error + WebhookRequest" where
  "sample_Unmarshal body =
     (if body = body_hello then Inr request_hello
      else if body = body_hello_bare then Inr request_hello_bare
      else if body = body_unregistered then Inr request_unregistered
      else if body = body_no_queryResult then Inr request_no_queryResult
      else Inl ''unexpected EOF'')"

definition sample_Marshal :: "WebhookResponse \<Rightarrow> error + string" where
  \<open>sample_Marshal r =
     (case map_index (GetFields (Res_Payload r)) ''x'' of
        Some Value_unset \<Rightarrow> Inl ''nil Value''
      | _ \<Rightarrow> Inr (''{"fulfillmentText":"'' @ Res_FulfillmentText r @ ''"}''))\<close>

definition sample_handlers :: handlers where
  "sample_handlers = Register ''hello'' (Some hello) handlerMap_initial"

section \<open>Properties\<close>

subsection \<open>Lemmas on the getters\<close>

lemma getField_present:
  assumes "Req_QueryResult (req w) = Some qr"
    and "map_index (GetFields (QR_Parameters qr)) name = Some v"
  shows "getField w name = Inr (Some v)"
  using assms by (simp add: getField_def)

lemma getField_absent:
  assumes "Req_QueryResult (req w) = Some qr"
    and "map_index (GetFields (QR_Parameters qr)) name = None"
    and "Req_OriginalDetectIntentRequest (req w) = Some odir"
  shows "getField w name = Inr (map_index (GetFields (ODIR_Payload odir)) name)"
  using assms by (simp add: getField_def)

lemma GetStringParam_getField:
  "getField w name = Inr f \<Longrightarrow> GetStringParam w name = Inr (GetStringValue f)"
  by (cases f) (simp_all add: GetStringParam_def)

lemma GetNumberParam_getField:
  "getField w name = Inr f \<Longrightarrow> GetNumberParam w name = Inr (GetNumberValue f)"
  by (cases f) (simp_all add: GetNumberParam_def)

text \<open>
  With both \<open>queryResult\<close> and \<open>originalDetectIntentRequest\<close> in the request, the getters
  return: the value of a name in neither map, or of another kind, is the zero value.
\<close>

lemma getters_return_when_both_present:
  assumes "Req_QueryResult (req w) = Some qr"
    and "Req_OriginalDetectIntentRequest (req w) = Some odir"
  shows "\<exists>x y. GetStringParam w name = Inr x \<and> GetNumberParam w name = Inr y"
proof (cases "map_index (GetFields (QR_Parameters qr)) name")
  case None
  from getField_absent[OF assms(1) None assms(2)] show ?thesis
    by (simp add: GetStringParam_getField GetNumberParam_getField)
next
  case (Some v)
  from getField_present[OF assms(1) Some] show ?thesis
    by (simp add: GetStringParam_getField GetNumberParam_getField)
qed

lemma getters_zero_when_absent:
  assumes "Req_QueryResult (req w) = Some qr"
    and "Req_OriginalDetectIntentRequest (req w) = Some odir"
    and "map_index (GetFields (QR_Parameters qr)) name = None"
    and "map_index (GetFields (ODIR_Payload odir)) name = None"
  shows "GetStringParam w name = Inr ''''" and "GetNumberParam w name = Inr 0"
  using getField_absent[OF assms(1) assms(3) assms(2)] assms(4)
  by (simp_all add: GetStringParam_getField GetNumberParam_getField)

text \<open>The earlier revision agrees with the later one on a name the parameters hold.\<close>

lemma part_000_agrees_on_parameters:
  assumes "Req_QueryResult (req w) = Some qr"
    and "map_index (GetFields (QR_Parameters qr)) name = Some v"
  shows "GetStringParam_part_000 w name = GetStringParam w name"
    and "GetNumberParam_part_000 w name = GetNumberParam w name"
  using getField_present[OF assms] assms
  by (simp_all add: GetStringParam_getField GetNumberParam_getField GetStringParam_part_000_def
      GetNumberParam_part_000_def)

subsection \<open>Lemmas on \<open>HandleRequest\<close>: one for each way through it\<close>

lemma HandleRequest_decode_error:
  assumes "Unmarshal (ProxyReq_Body request) = Inl e"
  shows "HandleRequest Unmarshal Marshal handlerMap request
           = Inr (status_only 400, Some (''unable to decode webhook request: '' @ e))"
  using assms by (simp add: HandleRequest_def)

lemma HandleRequest_no_queryResult:
  assumes "Unmarshal (ProxyReq_Body request) = Inr r"
    and "Req_QueryResult r = None"
  shows "HandleRequest Unmarshal Marshal handlerMap request = Inl NilPointerDereference"
  using assms by (simp add: HandleRequest_def newAgent_def Action_def)

lemma HandleRequest_no_handler:
  assumes "Unmarshal (ProxyReq_Body request) = Inr r"
    and "Req_QueryResult r = Some qr"
    and "handlerMap (QR_Action qr) = None"
  shows "HandleRequest Unmarshal Marshal handlerMap request
           = Inr (status_only 404, Some (''no handler defined for action: '' @ QR_Action qr))"
  using assms by (simp add: HandleRequest_def newAgent_def Action_def)

lemma HandleRequest_handler:
  assumes "Unmarshal (ProxyReq_Body request) = Inr r"
    and "Req_QueryResult r = Some qr"
    and "handlerMap (QR_Action qr) = Some handler"
  shows "HandleRequest Unmarshal Marshal handlerMap request
           = (case handler \<lparr>req = r, res = empty_WebhookResponse\<rparr> of
                Inl f \<Rightarrow> Inl f
              | Inr w' \<Rightarrow>
                  (case Marshal (res w') of
                     Inl err \<Rightarrow> Inr (status_only 500, Some err)
                   | Inr buf \<Rightarrow>
                       Inr (\<lparr>StatusCode = 200,
                             Headers = Some [''Content-Type'' \<mapsto> ''application/json''],
                             Body = buf, IsBase64Encoded = False\<rparr>, None)))"
  using assms by (simp add: HandleRequest_def newAgent_def Action_def)

subsection \<open>The samples, evaluated\<close>

lemma sample_Unmarshal_hello:
  "sample_Unmarshal body_hello = Inr request_hello"
  by (simp add: sample_Unmarshal_def)

lemma sample_Unmarshal_hello_bare:
  "sample_Unmarshal body_hello_bare = Inr request_hello_bare"
  by (simp add: sample_Unmarshal_def body_hello_def body_hello_bare_def)

lemma sample_Unmarshal_unregistered:
  "sample_Unmarshal body_unregistered
     = Inr request_unregistered"
  by (simp add: sample_Unmarshal_def body_hello_def body_hello_bare_def body_unregistered_def)

lemma sample_Unmarshal_no_queryResult:
  "sample_Unmarshal body_no_queryResult
     = Inr request_no_queryResult"
  by (simp add: sample_Unmarshal_def body_hello_def body_hello_bare_def body_unregistered_def
      body_no_queryResult_def)

lemma sample_Unmarshal_malformed:
  "sample_Unmarshal body_malformed = Inl ''unexpected EOF''"
  by (simp add: sample_Unmarshal_def body_hello_def body_hello_bare_def body_unregistered_def
      body_no_queryResult_def body_malformed_def)

lemma sample_Unmarshal_request:
  "sample_Unmarshal (ProxyReq_Body \<lparr>ProxyReq_Body = body\<rparr>) = sample_Unmarshal body"
  by simp

lemma QueryResult_request_hello:
  "Req_QueryResult request_hello
     = Some \<lparr>QR_Action = ''hello'',
             QR_Parameters = Some \<lparr>Fields = Some [''name'' \<mapsto> Value_StringValue ''Ada'']\<rparr>\<rparr>"
  by (simp add: request_hello_def)

lemma QueryResult_request_hello_bare:
  "Req_QueryResult request_hello_bare = Some \<lparr>QR_Action = ''hello'', QR_Parameters = None\<rparr>"
  by (simp add: request_hello_bare_def)

lemma QueryResult_request_unregistered:
  "Req_QueryResult request_unregistered
     = Some \<lparr>QR_Action = ''unregistered'', QR_Parameters = None\<rparr>"
  by (simp add: request_unregistered_def)

lemma hello_request_hello:
  "hello \<lparr>req = request_hello, res = empty_WebhookResponse\<rparr>
     = Inr \<lparr>req = request_hello,
            res = \<lparr>Res_FulfillmentText = ''Hello, Ada'', Res_OutputContexts = [],
                   Res_Payload = None\<rparr>\<rparr>"
  by (simp add: hello_def GetStringParam_def getField_def request_hello_def Say_def
      empty_WebhookResponse_def)

lemma hello_request_hello_bare:
  "hello \<lparr>req = request_hello_bare, res = empty_WebhookResponse\<rparr> = Inl NilPointerDereference"
  by (simp add: hello_def GetStringParam_def getField_def request_hello_bare_def)

lemma sample_Marshal_hello:
  \<open>sample_Marshal \<lparr>Res_FulfillmentText = ''Hello, Ada'', Res_OutputContexts = [],
      Res_Payload = None\<rparr> = Inr ''{"fulfillmentText":"Hello, Ada"}''\<close>
  by (simp add: sample_Marshal_def)

lemma sample_handlers_hello: "sample_handlers ''hello'' = Some hello"
  by (simp add: sample_handlers_def Register_def)

lemma sample_handlers_unregistered: "sample_handlers ''unregistered'' = None"
  by (simp add: sample_handlers_def Register_def handlerMap_initial_def)

subsection \<open>C1: the getters on a request without \<open>originalDetectIntentRequest\<close>\<close>

text \<open>
  C1 says that \<open>GetStringParam\<close> and \<open>GetNumberParam\<close> never fail and give the zero value
  for a name in neither map. The body \<open>{"queryResult":{"action":"hello"}}\<close> decodes to a
  request whose \<open>OriginalDetectIntentRequest\<close> is \<open>nil\<close>; the name \<open>name\<close> is not among
  its parameters, so \<open>getField\<close> goes on to read \<open>OriginalDetectIntentRequest.Payload\<close>
  through the \<open>nil\<close> pointer, and both getters panic instead of returning the zero
  value. The earlier revision returns the empty string on the same request, and the
  README's handler, dispatched on that body, takes \<open>HandleRequest\<close> down with it.
\<close>

theorem getters_panic_without_original_request:
  \<open>GetStringParam (fst (newAgent request_hello_bare)) ''name'' = Inl NilPointerDereference
   \<and> GetNumberParam (fst (newAgent request_hello_bare)) ''name'' = Inl NilPointerDereference
   \<and> GetStringParam_part_000 (fst (newAgent request_hello_bare)) ''name'' = Inr ''''
   \<and> HandleRequest sample_Unmarshal sample_Marshal sample_handlers
        \<lparr>ProxyReq_Body = ''{"queryResult":{"action":"hello"}}''\<rparr> = Inl NilPointerDereference\<close>
proof -
  have h: "sample_handlers (QR_Action \<lparr>QR_Action = ''hello'', QR_Parameters = None\<rparr>) = Some hello"
    by (simp add: sample_handlers_hello)
  have "HandleRequest sample_Unmarshal sample_Marshal sample_handlers
          \<lparr>ProxyReq_Body = body_hello_bare\<rparr> = Inl NilPointerDereference"
    using HandleRequest_handler[where Unmarshal = sample_Unmarshal and Marshal = sample_Marshal
        and handlerMap = sample_handlers,
        OF trans[OF sample_Unmarshal_request sample_Unmarshal_hello_bare] QueryResult_request_hello_bare h]
    by (simp add: hello_request_hello_bare)
  then show ?thesis
    by (simp add: newAgent_def GetStringParam_def GetNumberParam_def getField_def
        GetStringParam_part_000_def request_hello_bare_def body_hello_bare_def)
qed

subsection \<open>C3: a body that fails decoding\<close>

text \<open>
  C3: when the decoder rejects the body, \<open>HandleRequest\<close> returns the response that
  carries only the status 400, with the decoder's error wrapped; the result is the same
  for every registry, so the registry is not read and no handler runs.
\<close>

theorem decode_failure_gives_400:
  assumes "Unmarshal (ProxyReq_Body request) = Inl e"
  shows "HandleRequest Unmarshal Marshal handlerMap request
           = Inr (status_only 400, Some (''unable to decode webhook request: '' @ e))
         \<and> StatusCode (status_only 400) = 400
         \<and> HandleRequest Unmarshal Marshal handlerMap' request
             = HandleRequest Unmarshal Marshal handlerMap request"
  using assms by (simp add: HandleRequest_def status_only_def)

theorem decode_failure_gives_400_witness:
  "sample_Unmarshal body_malformed = Inl ''unexpected EOF''
   \<and> HandleRequest sample_Unmarshal sample_Marshal sample_handlers \<lparr>ProxyReq_Body = body_malformed\<rparr>
       = Inr (\<lparr>StatusCode = 400, Headers = None, Body = '''', IsBase64Encoded = False\<rparr>,
              Some ''unable to decode webhook request: unexpected EOF'')
   \<and> HandleRequest sample_Unmarshal sample_Marshal (Register ''{'' (Some panicking_handler) sample_handlers)
         \<lparr>ProxyReq_Body = body_malformed\<rparr>
       = HandleRequest sample_Unmarshal sample_Marshal sample_handlers \<lparr>ProxyReq_Body = body_malformed\<rparr>"
  using decode_failure_gives_400[where Unmarshal = sample_Unmarshal and Marshal = sample_Marshal
      and handlerMap = sample_handlers
      and handlerMap' = "Register ''{'' (Some panicking_handler) sample_handlers",
      OF trans[OF sample_Unmarshal_request sample_Unmarshal_malformed]]
  by (simp add: sample_Unmarshal_malformed status_only_def)

subsection \<open>C4: an action without a handler\<close>

text \<open>
  C4 says that every successfully decoded body whose action has no registered handler
  is answered with status 404. The body \<open>{"session":"s1"}\<close> decodes, to a request
  whose \<open>QueryResult\<close> is \<open>nil\<close>, and the empty registry holds a handler for no action
  at all; \<open>HandleRequest\<close> reads the action through the \<open>nil\<close> pointer before it indexes
  the registry, and panics instead of returning 404.
\<close>

theorem no_handler_without_queryResult_faults:
  "sample_Unmarshal body_no_queryResult = Inr request_no_queryResult
   \<and> Req_QueryResult request_no_queryResult = None
   \<and> handlerMap_initial = Map.empty
   \<and> HandleRequest sample_Unmarshal sample_Marshal handlerMap_initial
        \<lparr>ProxyReq_Body = body_no_queryResult\<rparr> = Inl NilPointerDereference"
proof -
  have q: "Req_QueryResult request_no_queryResult = None"
    by (simp add: request_no_queryResult_def)
  have "HandleRequest sample_Unmarshal sample_Marshal handlerMap_initial
          \<lparr>ProxyReq_Body = body_no_queryResult\<rparr> = Inl NilPointerDereference"
    by (rule HandleRequest_no_queryResult[where Unmarshal = sample_Unmarshal,
          OF trans[OF sample_Unmarshal_request sample_Unmarshal_no_queryResult] q])
  with q sample_Unmarshal_no_queryResult show ?thesis
    by (simp add: handlerMap_initial_def)
qed

text \<open>
  C4, as the code has it: when the body decodes to a request with a \<open>queryResult\<close> and
  the registry holds no handler for its action, \<open>HandleRequest\<close> returns the response
  that carries only the status 404, with an error that names the action. No handler
  runs: the result is the same whatever handlers the registry holds for other actions.
\<close>

theorem no_handler_gives_404:
  assumes "Unmarshal (ProxyReq_Body request) = Inr r"
    and "Req_QueryResult r = Some qr"
    and "handlerMap (QR_Action qr) = None"
  shows "HandleRequest Unmarshal Marshal handlerMap request
           = Inr (status_only 404, Some (''no handler defined for action: '' @ QR_Action qr))
         \<and> StatusCode (status_only 404) = 404"
  using assms by (simp add: HandleRequest_def newAgent_def Action_def status_only_def)

theorem no_handler_gives_404_witness:
  "sample_Unmarshal body_unregistered = Inr request_unregistered
   \<and> Req_QueryResult request_unregistered
        = Some \<lparr>QR_Action = ''unregistered'', QR_Parameters = None\<rparr>
   \<and> sample_handlers ''unregistered'' = None
   \<and> HandleRequest sample_Unmarshal sample_Marshal sample_handlers
        \<lparr>ProxyReq_Body = body_unregistered\<rparr>
       = Inr (\<lparr>StatusCode = 404, Headers = None, Body = '''', IsBase64Encoded = False\<rparr>,
              Some ''no handler defined for action: unregistered'')"
proof -
  have h: "sample_handlers (QR_Action \<lparr>QR_Action = ''unregistered'', QR_Parameters = None\<rparr>) = None"
    by (simp add: sample_handlers_unregistered)
  show ?thesis
    using no_handler_gives_404[where Unmarshal = sample_Unmarshal and Marshal = sample_Marshal
        and handlerMap = sample_handlers,
        OF trans[OF sample_Unmarshal_request sample_Unmarshal_unregistered] QueryResult_request_unregistered h]
    by (simp add: sample_Unmarshal_unregistered QueryResult_request_unregistered
        sample_handlers_unregistered status_only_def)
qed

subsection \<open>C9: a body without \<open>queryResult\<close>\<close>

text \<open>
  C9: when the body decodes to a request whose \<open>QueryResult\<close> is \<open>nil\<close>, \<open>HandleRequest\<close>
  panics with a nil dereference at \<open>w.Action()\<close>, whatever the registry holds: it
  returns no response, so no status 400 or 404.
\<close>

theorem missing_queryResult_faults:
  assumes "Unmarshal (ProxyReq_Body request) = Inr r"
    and "Req_QueryResult r = None"
  shows "Action (fst (newAgent r)) = Inl NilPointerDereference
         \<and> HandleRequest Unmarshal Marshal handlerMap request = Inl NilPointerDereference"
  using assms by (simp add: HandleRequest_def newAgent_def Action_def)

theorem missing_queryResult_faults_witness:
  "sample_Unmarshal body_no_queryResult
     = Inr request_no_queryResult
   \<and> Req_QueryResult request_no_queryResult = None
   \<and> HandleRequest sample_Unmarshal sample_Marshal sample_handlers
        \<lparr>ProxyReq_Body = body_no_queryResult\<rparr> = Inl NilPointerDereference"
proof -
  have q: "Req_QueryResult request_no_queryResult = None"
    by (simp add: request_no_queryResult_def)
  show ?thesis
    using missing_queryResult_faults[where Unmarshal = sample_Unmarshal
        and Marshal = sample_Marshal and handlerMap = sample_handlers,
        OF trans[OF sample_Unmarshal_request sample_Unmarshal_no_queryResult] q]
    by (simp add: sample_Unmarshal_no_queryResult q)
qed

subsection \<open>C6: the base64 payload decodes to the value\<close>

text \<open>The alphabet: 64 distinct characters, none of them the padding character.\<close>

lemma index_of_nth: "distinct xs \<Longrightarrow> i < length xs \<Longrightarrow> index_of xs (xs ! i) = Some i"
proof (induction xs arbitrary: i)
  case Nil
  then show ?case by simp
next
  case (Cons x xs)
  show ?case
  proof (cases i)
    case 0
    then show ?thesis by simp
  next
    case (Suc j)
    with Cons.prems have "j < length xs" "distinct xs" "x \<noteq> xs ! j" by auto
    with Cons.IH[of j] Suc show ?thesis by simp
  qed
qed

lemma distinct_encodeStd: "distinct encodeStd"
  by (simp add: encodeStd_def)

lemma length_encodeStd: "length encodeStd = 64"
  by (simp add: encodeStd_def)

lemma StdPadding_not_in_encodeStd: "StdPadding \<notin> set encodeStd"
  by (simp add: encodeStd_def StdPadding_def)

lemma decode6_encode6: "decode6 (encode6 v) = Some (v mod 64)"
  unfolding decode6_def encode6_def
  by (rule index_of_nth[OF distinct_encodeStd]) (simp add: length_encodeStd)

lemma encode6_not_StdPadding: "encode6 v \<noteq> StdPadding"
proof -
  have "encode6 v \<in> set encodeStd"
    unfolding encode6_def by (rule nth_mem) (simp add: length_encodeStd)
  with StdPadding_not_in_encodeStd show ?thesis by metis
qed

text \<open>A 24-bit value is the sum of its four 6-bit groups, and of its three bytes.\<close>

lemma sextets:
  fixes v :: nat
  assumes "v < 16777216"
  shows "(v div 262144) mod 64 * 262144 + (v div 4096) mod 64 * 4096
           + (v div 64) mod 64 * 64 + v mod 64 = v"
proof -
  define q1 where "q1 = v div 64"
  define q2 where "q2 = q1 div 64"
  define q3 where "q3 = q2 div 64"
  define r0 where "r0 = v mod 64"
  define r1 where "r1 = q1 mod 64"
  define r2 where "r2 = q2 mod 64"
  have e0: "v = 64 * q1 + r0" by (simp add: q1_def r0_def)
  have e1: "q1 = 64 * q2 + r1" by (simp add: q2_def r1_def)
  have e2: "q2 = 64 * q3 + r2" by (simp add: q3_def r2_def)
  have d2: "v div 4096 = q2" by (simp add: q2_def q1_def div_mult2_eq)
  have d3: "v div 262144 = q3" by (simp add: q3_def q2_def q1_def div_mult2_eq)
  have "q3 < 64" using assms e0 e1 e2 by linarith
  then have m3: "q3 mod 64 = q3" by simp
  have "q3 * 262144 + r2 * 4096 + r1 * 64 + r0 = v"
    using e0 e1 e2 by linarith
  then show ?thesis
    unfolding d2 d3 m3 q1_def[symmetric] r0_def[symmetric] r1_def[symmetric] r2_def[symmetric] .
qed

lemma of_char_bound: "(of_char c :: nat) < 256"
proof -
  have "(of_char c :: nat) mod 256 < 256" by simp
  then show ?thesis by (simp only: of_char_mod_256)
qed

lemma bytes3:
  fixes x y z :: nat
  assumes "x < 256" "y < 256" "z < 256"
  shows "(x * 65536 + y * 256 + z) div 65536 = x"
    and "(x * 65536 + y * 256 + z) div 256 mod 256 = y"
    and "(x * 65536 + y * 256 + z) mod 256 = z"
proof -
  show "(x * 65536 + y * 256 + z) div 65536 = x" using assms by simp
  have "(x * 65536 + y * 256 + z) div 256 = x * 256 + y" using assms by simp
  then show "(x * 65536 + y * 256 + z) div 256 mod 256 = y" using assms by simp
  have "x * 65536 + y * 256 + z = (x * 256 + y) * 256 + z" by simp
  then show "(x * 65536 + y * 256 + z) mod 256 = z"
    using assms by (simp only: mod_mult_self3 mod_less)
qed

lemma char_of_div_256: "char_of (n div 256 mod 256 :: nat) = char_of (n div 256)"
  by simp

text \<open>Each group the encoder emits decodes to the bytes it was made from.\<close>

lemma decode_group3:
  fixes a b c :: char
  defines "val \<equiv> of_char a * 65536 + of_char b * 256 + (of_char c :: nat)"
  shows "DecodeString (encode6 (val div 262144) # encode6 (val div 4096) # encode6 (val div 64)
            # encode6 val # rest)
         = map_option (\<lambda>out. a # b # c # out) (DecodeString rest)"
proof -
  have bounds: "(of_char a :: nat) < 256" "(of_char b :: nat) < 256" "(of_char c :: nat) < 256"
    by (rule of_char_bound)+
  then have v: "val < 16777216" unfolding val_def by linarith
  have s: "val div 262144 mod 64 * 262144 + val div 4096 mod 64 * 4096
             + val div 64 mod 64 * 64 + val mod 64 = val"
    by (rule sextets[OF v])
  have "val div 65536 = of_char a" unfolding val_def by (rule bytes3(1)[OF bounds])
  then have b1: "char_of (val div 65536) = a" by simp
  have "val div 256 mod 256 = of_char b" unfolding val_def by (rule bytes3(2)[OF bounds])
  then have "char_of (val div 256 mod 256) = b" by simp
  then have b2: "char_of (val div 256) = b" by (simp only: char_of_div_256)
  have "val mod 256 = of_char c" unfolding val_def by (rule bytes3(3)[OF bounds])
  then have "char_of (val mod 256) = c" by simp
  then have b3: "char_of val = c" by (simp only: char_of_mod_256)
  show ?thesis
    by (simp add: decode6_encode6 encode6_not_StdPadding Let_def s b1 b2 b3)
qed

lemma decode_group2:
  fixes a b :: char
  defines "val \<equiv> of_char a * 65536 + of_char b * (256 :: nat)"
  shows "DecodeString [encode6 (val div 262144), encode6 (val div 4096), encode6 (val div 64),
            StdPadding] = Some [a, b]"
proof -
  have bounds: "(of_char a :: nat) < 256" "(of_char b :: nat) < 256" "(0 :: nat) < 256"
    by (rule of_char_bound, rule of_char_bound, simp)
  have val0: "val = of_char a * 65536 + of_char b * 256 + 0" unfolding val_def by simp
  from bounds have v: "val < 16777216" unfolding val_def by linarith
  have "val = (of_char a * 1024 + of_char b * 4) * 64" unfolding val_def by simp
  then have "val mod 64 = 0" by (simp only: mod_mult_self2_is_0)
  then have s: "val div 262144 mod 64 * 262144 + val div 4096 mod 64 * 4096
             + val div 64 mod 64 * 64 = val"
    using sextets[OF v] by (simp only: add_0_right)
  have "val div 65536 = of_char a" unfolding val0 by (rule bytes3(1)[OF bounds])
  then have b1: "char_of (val div 65536) = a" by simp
  have "val div 256 mod 256 = of_char b" unfolding val0 by (rule bytes3(2)[OF bounds])
  then have "char_of (val div 256 mod 256) = b" by simp
  then have b2: "char_of (val div 256) = b" by (simp only: char_of_div_256)
  show ?thesis
    by (simp add: decode6_encode6 encode6_not_StdPadding Let_def s b1 b2)
qed

lemma decode_group1:
  fixes a :: char
  defines "val \<equiv> of_char a * (65536 :: nat)"
  shows "DecodeString [encode6 (val div 262144), encode6 (val div 4096), StdPadding, StdPadding]
           = Some [a]"
proof -
  have bounds: "(of_char a :: nat) < 256" "(0 :: nat) < 256" "(0 :: nat) < 256"
    by (rule of_char_bound, simp, simp)
  have val0: "val = of_char a * 65536 + 0 * 256 + 0" unfolding val_def by simp
  from bounds have v: "val < 16777216" unfolding val_def by linarith
  have "val = (of_char a * 1024) * 64" unfolding val_def by simp
  then have m0: "val mod 64 = 0" by (simp only: mod_mult_self2_is_0)
  have "val div 64 = (of_char a * 16) * 64" unfolding val_def by simp
  then have m1: "val div 64 mod 64 = 0" by (simp only: mod_mult_self2_is_0)
  have s: "val div 262144 mod 64 * 262144 + val div 4096 mod 64 * 4096 = val"
    using sextets[OF v] by (simp only: m0 m1 mult_zero_left add_0_right)
  have "val div 65536 = of_char a" unfolding val0 by (rule bytes3(1)[OF bounds])
  then have b1: "char_of (val div 65536) = a" by simp
  show ?thesis
    by (simp add: decode6_encode6 encode6_not_StdPadding Let_def s b1)
qed

lemma DecodeString_EncodeToString: "DecodeString (EncodeToString v) = Some v"
proof (induction v rule: EncodeToString.induct)
  case (1 a b c src)
  have "DecodeString (EncodeToString (a # b # c # src))
          = map_option (\<lambda>out. a # b # c # out) (DecodeString (EncodeToString src))"
    unfolding EncodeToString.simps Let_def by (rule decode_group3)
  with 1 show ?case by simp
next
  case (2 a b)
  show ?case unfolding EncodeToString.simps Let_def by (rule decode_group2)
next
  case (3 a)
  show ?case unfolding EncodeToString.simps Let_def by (rule decode_group1)
next
  case 4
  show ?case by simp
qed

lemma AddPayload_stores:
  "map_index (GetFields (Res_Payload (res (AddPayload name v w)))) name
     = Some (Value_StringValue v)"
  by (simp add: AddPayload_def Response_def Let_def split: option.split)

text \<open>
  C6: after \<open>AddJSONPayloadBase64 name v\<close>, on any agent, the payload holds under \<open>name\<close>
  a string value, and the standard base64 decoding of that string is \<open>v\<close>.
\<close>

theorem base64_payload_round_trip:
  "map_index (GetFields (Res_Payload (res (AddJSONPayloadBase64 name v w)))) name
     = Some (Value_StringValue (EncodeToString v))
   \<and> DecodeString (GetStringValue
        (map_index (GetFields (Res_Payload (res (AddJSONPayloadBase64 name v w)))) name))
     = Some v"
  by (simp add: AddJSONPayloadBase64_def AddPayload_stores DecodeString_EncodeToString)

subsection \<open>C7: \<open>SetContext\<close> appends\<close>

lemma OutputContexts_SetContext:
  "Res_OutputContexts (res (SetContext contextname lifetime w))
     = Res_OutputContexts (res w)
         @ [\<lparr>Ctx_Name = contextname, Ctx_LifespanCount = lifetime, Ctx_Parameters = None\<rparr>]"
  by (simp add: SetContext_def)

lemma OutputContexts_Say: "Res_OutputContexts (res (Say someText w)) = Res_OutputContexts (res w)"
  by (simp add: Say_def)

lemma OutputContexts_AddPayload:
  "Res_OutputContexts (res (AddPayload name v w)) = Res_OutputContexts (res w)"
  by (simp add: AddPayload_def Response_def Let_def split: option.split)

lemma OutputContexts_perform:
  "Res_OutputContexts (res (perform m w)) = Res_OutputContexts (res w) @ contexts_set [m]"
  by (cases m)
    (simp_all add: OutputContexts_SetContext OutputContexts_Say OutputContexts_AddPayload
      AddJSONPayloadBase64_def)

lemma contexts_set_Cons: "contexts_set (m # ms) = contexts_set [m] @ contexts_set ms"
  by (cases m) simp_all

lemma OutputContexts_perform_all:
  "Res_OutputContexts (res (perform_all ms w)) = Res_OutputContexts (res w) @ contexts_set ms"
proof (induction ms arbitrary: w)
  case Nil
  show ?case by simp
next
  case (Cons m ms)
  have "Res_OutputContexts (res (perform_all (m # ms) w))
          = Res_OutputContexts (res (perform m w)) @ contexts_set ms"
    by (simp add: Cons.IH)
  also have "\<dots> = Res_OutputContexts (res w) @ contexts_set [m] @ contexts_set ms"
    by (simp add: OutputContexts_perform)
  finally show ?case by (simp add: contexts_set_Cons[of m ms])
qed

lemma length_contexts_set: "length (contexts_set ms) = length (filter is_SetContext ms)"
  by (induction ms rule: contexts_set.induct) simp_all

lemma contexts_set_replicate:
  "contexts_set (replicate n (Call_SetContext contextname lifetime))
     = replicate n \<lparr>Ctx_Name = contextname, Ctx_LifespanCount = lifetime, Ctx_Parameters = None\<rparr>"
  by (induction n) simp_all

text \<open>
  C7: \<open>SetContext\<close> appends one entry with the name and the lifespan and keeps the
  entries that were there; after any sequence of mutator calls the contexts are the
  earlier ones followed by one entry for each \<open>SetContext\<close> call, in call order, so
  their number grows by the number of those calls; and \<open>n\<close> calls with the same name on
  a new agent leave \<open>n\<close> equal entries.
\<close>

theorem SetContext_appends_and_keeps_duplicates:
  "Res_OutputContexts (res (SetContext contextname lifetime w))
     = Res_OutputContexts (res w)
         @ [\<lparr>Ctx_Name = contextname, Ctx_LifespanCount = lifetime, Ctx_Parameters = None\<rparr>]
   \<and> Res_OutputContexts (res (perform_all ms w)) = Res_OutputContexts (res w) @ contexts_set ms
   \<and> length (Res_OutputContexts (res (perform_all ms w)))
       = length (Res_OutputContexts (res w)) + length (filter is_SetContext ms)
   \<and> Res_OutputContexts
        (res (perform_all (replicate n (Call_SetContext contextname lifetime)) (fst (newAgent r))))
       = replicate n \<lparr>Ctx_Name = contextname, Ctx_LifespanCount = lifetime, Ctx_Parameters = None\<rparr>"
  by (simp add: OutputContexts_SetContext OutputContexts_perform_all length_contexts_set
      contexts_set_replicate newAgent_def empty_WebhookResponse_def)

subsection \<open>C5: the parameters come before the original payload\<close>

lemma GetStringValue_Some:
  "GetStringValue (Some v) = (case v of Value_StringValue x \<Rightarrow> x | _ \<Rightarrow> '''')"
  by (cases v) simp_all

lemma GetNumberValue_Some:
  "GetNumberValue (Some v) = (case v of Value_NumberValue x \<Rightarrow> x | _ \<Rightarrow> 0)"
  by (cases v) simp_all

text \<open>
  C5, for an agent whose request has a \<open>queryResult\<close>. When the parameters hold the
  name, both getters answer from that entry (the string or the number it carries, the
  zero value when it is of another kind), whatever stands in the place of
  \<open>originalDetectIntentRequest\<close>, \<open>nil\<close> included: it is not read. When the parameters do
  not hold the name, the getters answer from the entry of the original payload.
\<close>

theorem parameters_take_precedence:
  assumes "Req_QueryResult (req w) = Some qr"
  shows "(map_index (GetFields (QR_Parameters qr)) name = Some v \<longrightarrow>
            GetStringParam (w\<lparr>req := (req w)\<lparr>Req_OriginalDetectIntentRequest := original\<rparr>\<rparr>) name
              = Inr (case v of Value_StringValue x \<Rightarrow> x | _ \<Rightarrow> '''')
          \<and> GetNumberParam (w\<lparr>req := (req w)\<lparr>Req_OriginalDetectIntentRequest := original\<rparr>\<rparr>) name
              = Inr (case v of Value_NumberValue x \<Rightarrow> x | _ \<Rightarrow> 0))
       \<and> (map_index (GetFields (QR_Parameters qr)) name = None
            \<and> Req_OriginalDetectIntentRequest (req w) = Some odir \<longrightarrow>
            GetStringParam w name
              = Inr (GetStringValue (map_index (GetFields (ODIR_Payload odir)) name))
          \<and> GetNumberParam w name
              = Inr (GetNumberValue (map_index (GetFields (ODIR_Payload odir)) name)))"
proof (intro conjI impI)
  let ?w = "w\<lparr>req := (req w)\<lparr>Req_OriginalDetectIntentRequest := original\<rparr>\<rparr>"
  assume p: "map_index (GetFields (QR_Parameters qr)) name = Some v"
  have q: "Req_QueryResult (req ?w) = Some qr"
    using assms by simp
  have f: "getField ?w name = Inr (Some v)"
    by (rule getField_present[OF q p])
  show "GetStringParam ?w name = Inr (case v of Value_StringValue x \<Rightarrow> x | _ \<Rightarrow> '''')"
    using GetStringParam_getField[OF f] by (simp only: GetStringValue_Some)
  show "GetNumberParam ?w name = Inr (case v of Value_NumberValue x \<Rightarrow> x | _ \<Rightarrow> 0)"
    using GetNumberParam_getField[OF f] by (simp only: GetNumberValue_Some)
next
  assume "map_index (GetFields (QR_Parameters qr)) name = None
            \<and> Req_OriginalDetectIntentRequest (req w) = Some odir"
  then have p: "map_index (GetFields (QR_Parameters qr)) name = None"
    and o: "Req_OriginalDetectIntentRequest (req w) = Some odir"
    by simp_all
  have f: "getField w name = Inr (map_index (GetFields (ODIR_Payload odir)) name)"
    by (rule getField_absent[OF assms p o])
  show "GetStringParam w name
          = Inr (GetStringValue (map_index (GetFields (ODIR_Payload odir)) name))"
    by (rule GetStringParam_getField[OF f])
  show "GetNumberParam w name
          = Inr (GetNumberValue (map_index (GetFields (ODIR_Payload odir)) name))"
    by (rule GetNumberParam_getField[OF f])
qed

text \<open>
  On the sample request, \<open>count\<close> is a number in the parameters and a string in the
  original payload: the string getter gives the empty string and not \<open>three\<close>, also with
  \<open>originalDetectIntentRequest\<close> taken away; \<open>name\<close> is in the original payload only.
\<close>

theorem parameters_take_precedence_witness:
  "GetStringParam \<lparr>req = request_two_tier, res = empty_WebhookResponse\<rparr> ''count'' = Inr ''''
   \<and> GetNumberParam \<lparr>req = request_two_tier, res = empty_WebhookResponse\<rparr> ''count''
       = Inr 0x4008000000000000
   \<and> GetStringParam
        \<lparr>req = request_two_tier\<lparr>Req_OriginalDetectIntentRequest := None\<rparr>,
         res = empty_WebhookResponse\<rparr> ''count'' = Inr ''''
   \<and> GetStringParam \<lparr>req = request_two_tier, res = empty_WebhookResponse\<rparr> ''name'' = Inr ''Ada''
   \<and> GetNumberParam \<lparr>req = request_two_tier, res = empty_WebhookResponse\<rparr> ''name'' = Inr 0"
proof -
  let ?w = "\<lparr>req = request_two_tier, res = empty_WebhookResponse\<rparr>"
  let ?qr = "\<lparr>QR_Action = ''hello'',
      QR_Parameters = Some \<lparr>Fields = Some [''count'' \<mapsto> Value_NumberValue 0x4008000000000000]\<rparr>\<rparr>"
  let ?odir = "\<lparr>ODIR_Payload = Some \<lparr>Fields = Some
      [''count'' \<mapsto> Value_StringValue ''three'', ''name'' \<mapsto> Value_StringValue ''Ada'']\<rparr>\<rparr>"
  have q: "Req_QueryResult (req ?w) = Some ?qr"
    by (simp add: request_two_tier_def)
  have c: "map_index (GetFields (QR_Parameters ?qr)) ''count''
             = Some (Value_NumberValue 0x4008000000000000)"
    by simp
  have n: "map_index (GetFields (QR_Parameters ?qr)) ''name'' = None
             \<and> Req_OriginalDetectIntentRequest (req ?w) = Some ?odir"
    by (simp add: request_two_tier_def)
  have same: "?w\<lparr>req := (req ?w)\<lparr>Req_OriginalDetectIntentRequest := Some ?odir\<rparr>\<rparr> = ?w"
    by (simp add: request_two_tier_def)
  note t = parameters_take_precedence[OF q]
  from t[of "''count''" "Value_NumberValue 0x4008000000000000" "Some ?odir"] c same
  have 1: "GetStringParam ?w ''count'' = Inr ''''"
    and 2: "GetNumberParam ?w ''count'' = Inr 0x4008000000000000"
    by simp_all
  from t[of "''count''" "Value_NumberValue 0x4008000000000000" None] c
  have 3: "GetStringParam \<lparr>req = request_two_tier\<lparr>Req_OriginalDetectIntentRequest := None\<rparr>,
             res = empty_WebhookResponse\<rparr> ''count'' = Inr ''''"
    by simp
  from t[of "''name''" _ _ ?odir] n
  have 4: "GetStringParam ?w ''name'' = Inr ''Ada''"
    and 5: "GetNumberParam ?w ''name'' = Inr 0"
    by simp_all
  from 1 2 3 4 5 show ?thesis by blast
qed

subsection \<open>C8: the last registration wins\<close>

text \<open>
  C8: \<open>Register\<close> is a total function on registries. After two registrations for one
  action the registry holds the second handler there, and is the registry the second
  registration alone would give; another action keeps its entry. A request with that
  action is dispatched to the second handler: the result of \<open>HandleRequest\<close> is what
  this handler, run on the new agent, leads to.
\<close>

theorem last_registration_wins:
  "Register a h2 (Register a h1 handlerMap) a = h2
   \<and> Register a h2 (Register a h1 handlerMap) = Register a h2 handlerMap
   \<and> (b \<noteq> a \<longrightarrow> Register a h1 handlerMap b = handlerMap b)
   \<and> (Unmarshal (ProxyReq_Body request) = Inr r \<and> Req_QueryResult r = Some qr
        \<and> QR_Action qr = a \<longrightarrow>
        HandleRequest Unmarshal Marshal (Register a (Some handler2) (Register a h1 handlerMap))
            request
          = (case handler2 \<lparr>req = r, res = empty_WebhookResponse\<rparr> of
               Inl f \<Rightarrow> Inl f
             | Inr w' \<Rightarrow>
                 (case Marshal (res w') of
                    Inl err \<Rightarrow> Inr (status_only 500, Some err)
                  | Inr buf \<Rightarrow>
                      Inr (\<lparr>StatusCode = 200,
                            Headers = Some [''Content-Type'' \<mapsto> ''application/json''],
                            Body = buf, IsBase64Encoded = False\<rparr>, None))))"
proof (intro conjI impI)
  show "Register a h2 (Register a h1 handlerMap) a = h2"
    by (simp add: Register_def)
  show "Register a h2 (Register a h1 handlerMap) = Register a h2 handlerMap"
    by (simp add: Register_def)
  show "Register a h1 handlerMap b = handlerMap b" if "b \<noteq> a"
    using that by (simp add: Register_def)
next
  assume "Unmarshal (ProxyReq_Body request) = Inr r \<and> Req_QueryResult r = Some qr
            \<and> QR_Action qr = a"
  then have u: "Unmarshal (ProxyReq_Body request) = Inr r"
    and q: "Req_QueryResult r = Some qr"
    and h: "Register a (Some handler2) (Register a h1 handlerMap) (QR_Action qr) = Some handler2"
    by (simp_all add: Register_def)
  show "HandleRequest Unmarshal Marshal (Register a (Some handler2) (Register a h1 handlerMap))
            request
          = (case handler2 \<lparr>req = r, res = empty_WebhookResponse\<rparr> of
               Inl f \<Rightarrow> Inl f
             | Inr w' \<Rightarrow>
                 (case Marshal (res w') of
                    Inl err \<Rightarrow> Inr (status_only 500, Some err)
                  | Inr buf \<Rightarrow>
                      Inr (\<lparr>StatusCode = 200,
                            Headers = Some [''Content-Type'' \<mapsto> ''application/json''],
                            Body = buf, IsBase64Encoded = False\<rparr>, None)))"
    by (rule HandleRequest_handler[where Unmarshal = Unmarshal
          and handlerMap = "Register a (Some handler2) (Register a h1 handlerMap)", OF u q h])
qed

text \<open>
  On the sample body: \<open>hello\<close> is registered after a panicking handler for the same
  action, and the request is answered by \<open>hello\<close>; the other action keeps its handler.
\<close>

theorem last_registration_wins_witness:
  \<open>''other'' \<noteq> ''hello''
   \<and> Register ''hello'' (Some panicking_handler)
         (Register ''other'' (Some panicking_handler) handlerMap_initial) ''other''
       = Register ''other'' (Some panicking_handler) handlerMap_initial ''other''
   \<and> sample_Unmarshal body_hello = Inr request_hello
   \<and> HandleRequest sample_Unmarshal sample_Marshal
        (Register ''hello'' (Some hello)
          (Register ''hello'' (Some panicking_handler)
            (Register ''other'' (Some panicking_handler) handlerMap_initial)))
        \<lparr>ProxyReq_Body = body_hello\<rparr>
       = Inr (\<lparr>StatusCode = 200,
               Headers = Some [''Content-Type'' \<mapsto> ''application/json''],
               Body = ''{"fulfillmentText":"Hello, Ada"}'', IsBase64Encoded = False\<rparr>, None)\<close>
proof -
  let ?qr = "\<lparr>QR_Action = ''hello'',
      QR_Parameters = Some \<lparr>Fields = Some [''name'' \<mapsto> Value_StringValue ''Ada'']\<rparr>\<rparr>"
  let ?hm = "Register ''other'' (Some panicking_handler) handlerMap_initial"
  have pre: "sample_Unmarshal (ProxyReq_Body \<lparr>ProxyReq_Body = body_hello\<rparr>) = Inr request_hello
      \<and> Req_QueryResult request_hello = Some ?qr \<and> QR_Action ?qr = ''hello''"
    by (simp add: sample_Unmarshal_hello QueryResult_request_hello)
  have ne: "''other'' \<noteq> ''hello''" by simp
  note t = last_registration_wins[where a = "''hello''" and b = "''other''"
      and ?h1.0 = "Some panicking_handler" and handlerMap = ?hm and ?handler2.0 = hello
      and Unmarshal = sample_Unmarshal and Marshal = sample_Marshal
      and request = "\<lparr>ProxyReq_Body = body_hello\<rparr>" and r = request_hello and qr = ?qr]
  from t ne have 1: "Register ''hello'' (Some panicking_handler) ?hm ''other'' = ?hm ''other''"
    by blast
  from t pre have "HandleRequest sample_Unmarshal sample_Marshal
        (Register ''hello'' (Some hello) (Register ''hello'' (Some panicking_handler) ?hm))
        \<lparr>ProxyReq_Body = body_hello\<rparr>
      = (case hello \<lparr>req = request_hello, res = empty_WebhookResponse\<rparr> of
           Inl f \<Rightarrow> Inl f
         | Inr w' \<Rightarrow>
             (case sample_Marshal (res w') of
                Inl err \<Rightarrow> Inr (status_only 500, Some err)
              | Inr buf \<Rightarrow>
                  Inr (\<lparr>StatusCode = 200,
                        Headers = Some [''Content-Type'' \<mapsto> ''application/json''],
                        Body = buf, IsBase64Encoded = False\<rparr>, None)))"
    by blast
  then have 2: "HandleRequest sample_Unmarshal sample_Marshal
        (Register ''hello'' (Some hello) (Register ''hello'' (Some panicking_handler) ?hm))
        \<lparr>ProxyReq_Body = body_hello\<rparr>
      = Inr (\<lparr>StatusCode = 200,
              Headers = Some [''Content-Type'' \<mapsto> ''application/json''],
              Body = sample_Marshal_hello_text, IsBase64Encoded = False\<rparr>, None)"
    if "sample_Marshal \<lparr>Res_FulfillmentText = ''Hello, Ada'', Res_OutputContexts = [],
          Res_Payload = None\<rparr> = Inr sample_Marshal_hello_text" for sample_Marshal_hello_text
    using that by (simp add: hello_request_hello)
  from 1 2[OF sample_Marshal_hello] ne sample_Unmarshal_hello show ?thesis
    by blast
qed

subsection \<open>C10: the error that comes with the response\<close>

text \<open>
  C10: whenever \<open>HandleRequest\<close> returns, a response with status 400 or 404 carries
  nothing but the status and comes with a non-nil error, and a response with status
  200 comes with the nil error.
\<close>

theorem error_accompanies_400_and_404:
  assumes "HandleRequest Unmarshal Marshal handlerMap request = Inr (resp, err)"
  shows "(StatusCode resp = 400 \<or> StatusCode resp = 404 \<longrightarrow>
            err \<noteq> None \<and> resp = status_only (StatusCode resp))
       \<and> (StatusCode resp = 200 \<longrightarrow> err = None)"
  using assms
  by (auto simp: HandleRequest_def newAgent_def Action_def status_only_def
      split: sum.splits option.splits)

lemma HandleRequest_sample_malformed:
  "HandleRequest sample_Unmarshal sample_Marshal sample_handlers \<lparr>ProxyReq_Body = body_malformed\<rparr>
     = Inr (status_only 400, Some ''unable to decode webhook request: unexpected EOF'')"
  using HandleRequest_decode_error[where Unmarshal = sample_Unmarshal and Marshal = sample_Marshal
      and handlerMap = sample_handlers,
      OF trans[OF sample_Unmarshal_request sample_Unmarshal_malformed]]
  by simp

lemma HandleRequest_sample_unregistered:
  "HandleRequest sample_Unmarshal sample_Marshal sample_handlers
       \<lparr>ProxyReq_Body = body_unregistered\<rparr>
     = Inr (status_only 404, Some ''no handler defined for action: unregistered'')"
proof -
  have h: "sample_handlers (QR_Action \<lparr>QR_Action = ''unregistered'', QR_Parameters = None\<rparr>) = None"
    by (simp add: sample_handlers_unregistered)
  show ?thesis
    using HandleRequest_no_handler[where Unmarshal = sample_Unmarshal
        and Marshal = sample_Marshal and handlerMap = sample_handlers,
        OF trans[OF sample_Unmarshal_request sample_Unmarshal_unregistered]
          QueryResult_request_unregistered h]
    by simp
qed

lemma sample_handlers_request_hello:
  "sample_handlers (QR_Action \<lparr>QR_Action = ''hello'',
      QR_Parameters = Some \<lparr>Fields = Some [''name'' \<mapsto> Value_StringValue ''Ada'']\<rparr>\<rparr>)
     = Some hello"
  by (simp add: sample_handlers_hello)

lemma HandleRequest_sample_hello:
  \<open>HandleRequest sample_Unmarshal sample_Marshal sample_handlers \<lparr>ProxyReq_Body = body_hello\<rparr>
     = Inr (\<lparr>StatusCode = 200,
             Headers = Some [''Content-Type'' \<mapsto> ''application/json''],
             Body = ''{"fulfillmentText":"Hello, Ada"}'', IsBase64Encoded = False\<rparr>, None)\<close>
  using HandleRequest_handler[where Unmarshal = sample_Unmarshal and Marshal = sample_Marshal
      and handlerMap = sample_handlers,
      OF trans[OF sample_Unmarshal_request sample_Unmarshal_hello]
        QueryResult_request_hello sample_handlers_request_hello]
  by (simp add: hello_request_hello sample_Marshal_hello)

text \<open>The three sample bodies: one malformed, one with an unregistered action, one answered.\<close>

theorem error_accompanies_400_and_404_witness:
  \<open>(\<exists>e. HandleRequest sample_Unmarshal sample_Marshal sample_handlers
            \<lparr>ProxyReq_Body = body_malformed\<rparr> = Inr (status_only 400, Some e))
   \<and> (\<exists>e. HandleRequest sample_Unmarshal sample_Marshal sample_handlers
            \<lparr>ProxyReq_Body = body_unregistered\<rparr> = Inr (status_only 404, Some e))
   \<and> (\<exists>resp. HandleRequest sample_Unmarshal sample_Marshal sample_handlers
            \<lparr>ProxyReq_Body = body_hello\<rparr> = Inr (resp, None) \<and> StatusCode resp = 200)\<close>
proof -
  obtain resp1 err1 where 1: "HandleRequest sample_Unmarshal sample_Marshal sample_handlers
      \<lparr>ProxyReq_Body = body_malformed\<rparr> = Inr (resp1, err1)" and s1: "StatusCode resp1 = 400"
    using HandleRequest_sample_malformed by (simp add: status_only_def)
  obtain resp2 err2 where 2: "HandleRequest sample_Unmarshal sample_Marshal sample_handlers
      \<lparr>ProxyReq_Body = body_unregistered\<rparr> = Inr (resp2, err2)" and s2: "StatusCode resp2 = 404"
    using HandleRequest_sample_unregistered by (simp add: status_only_def)
  obtain resp3 err3 where 3: "HandleRequest sample_Unmarshal sample_Marshal sample_handlers
      \<lparr>ProxyReq_Body = body_hello\<rparr> = Inr (resp3, err3)" and s3: "StatusCode resp3 = 200"
    using HandleRequest_sample_hello by simp
  from error_accompanies_400_and_404[OF 1] s1
  have "err1 \<noteq> None" and "resp1 = status_only 400" by simp_all
  with 1 have a: "\<exists>e. HandleRequest sample_Unmarshal sample_Marshal sample_handlers
      \<lparr>ProxyReq_Body = body_malformed\<rparr> = Inr (status_only 400, Some e)"
    by auto
  from error_accompanies_400_and_404[OF 2] s2
  have "err2 \<noteq> None" and "resp2 = status_only 404" by simp_all
  with 2 have b: "\<exists>e. HandleRequest sample_Unmarshal sample_Marshal sample_handlers
      \<lparr>ProxyReq_Body = body_unregistered\<rparr> = Inr (status_only 404, Some e)"
    by auto
  from error_accompanies_400_and_404[OF 3] s3
  have "err3 = None" by simp
  with 3 s3 have c: "\<exists>resp. HandleRequest sample_Unmarshal sample_Marshal sample_handlers
      \<lparr>ProxyReq_Body = body_hello\<rparr> = Inr (resp, None) \<and> StatusCode resp = 200"
    by auto
  from a b c show ?thesis by blast
qed

subsection \<open>C2: a request with a registered handler\<close>

text \<open>
  C2 says that every well-formed body whose action has a registered handler is answered
  with status 200. Two requests that are not: the registered handler panics, and
  \<open>HandleRequest\<close>, which does not recover, panics with it; the registered handler leaves
  a response the encoder refuses, and \<open>HandleRequest\<close> returns status 500 with the
  encoder's error, as its third \<open>return\<close> says.
\<close>

theorem registered_handler_without_200:
  "sample_Unmarshal body_hello = Inr request_hello
   \<and> Action (fst (newAgent request_hello)) = Inr ''hello''
   \<and> Register ''hello'' (Some panicking_handler) handlerMap_initial ''hello''
       = Some panicking_handler
   \<and> HandleRequest sample_Unmarshal sample_Marshal
        (Register ''hello'' (Some panicking_handler) handlerMap_initial)
        \<lparr>ProxyReq_Body = body_hello\<rparr> = Inl (HandlerPanic ''boom'')
   \<and> Register ''hello'' (Some unset_value_handler) handlerMap_initial ''hello''
       = Some unset_value_handler
   \<and> HandleRequest sample_Unmarshal sample_Marshal
        (Register ''hello'' (Some unset_value_handler) handlerMap_initial)
        \<lparr>ProxyReq_Body = body_hello\<rparr>
       = Inr (\<lparr>StatusCode = 500, Headers = None, Body = '''', IsBase64Encoded = False\<rparr>,
              Some ''nil Value'')"
proof -
  let ?qr = "\<lparr>QR_Action = ''hello'',
      QR_Parameters = Some \<lparr>Fields = Some [''name'' \<mapsto> Value_StringValue ''Ada'']\<rparr>\<rparr>"
  have u: "sample_Unmarshal (ProxyReq_Body \<lparr>ProxyReq_Body = body_hello\<rparr>) = Inr request_hello"
    by (simp add: sample_Unmarshal_hello)
  have p: "Register ''hello'' (Some panicking_handler) handlerMap_initial (QR_Action ?qr)
             = Some panicking_handler"
    by (simp add: Register_def)
  have n: "Register ''hello'' (Some unset_value_handler) handlerMap_initial (QR_Action ?qr)
             = Some unset_value_handler"
    by (simp add: Register_def)
  have 1: "HandleRequest sample_Unmarshal sample_Marshal
        (Register ''hello'' (Some panicking_handler) handlerMap_initial)
        \<lparr>ProxyReq_Body = body_hello\<rparr> = Inl (HandlerPanic ''boom'')"
    using HandleRequest_handler[where Unmarshal = sample_Unmarshal and Marshal = sample_Marshal
        and handlerMap = "Register ''hello'' (Some panicking_handler) handlerMap_initial",
        OF u QueryResult_request_hello p]
    by (simp add: panicking_handler_def)
  have 2: "HandleRequest sample_Unmarshal sample_Marshal
        (Register ''hello'' (Some unset_value_handler) handlerMap_initial)
        \<lparr>ProxyReq_Body = body_hello\<rparr>
       = Inr (\<lparr>StatusCode = 500, Headers = None, Body = '''', IsBase64Encoded = False\<rparr>,
              Some ''nil Value'')"
    using HandleRequest_handler[where Unmarshal = sample_Unmarshal and Marshal = sample_Marshal
        and handlerMap = "Register ''hello'' (Some unset_value_handler) handlerMap_initial",
        OF u QueryResult_request_hello n]
    by (simp add: unset_value_handler_def sample_Marshal_def status_only_def Response_def)
  have 3: "Action (fst (newAgent request_hello)) = Inr ''hello''"
    by (simp add: newAgent_def Action_def request_hello_def)
  from 1 2 3 p n sample_Unmarshal_hello show ?thesis by simp
qed

text \<open>
  C2, as the code has it: when the body decodes to a request with a \<open>queryResult\<close>, the registry
  holds a handler for its action, this handler returns on the new agent (whose response
  is the empty one), and the encoder accepts the response the handler left, then
  \<open>HandleRequest\<close> returns status 200, the header \<open>Content-Type: application/json\<close> and no
  other, the encoding of that response as the body, and the nil error.
\<close>

theorem registered_handler_gives_200:
  assumes "Unmarshal (ProxyReq_Body request) = Inr r"
    and "Req_QueryResult r = Some qr"
    and "handlerMap (QR_Action qr) = Some handler"
    and "handler \<lparr>req = r, res = empty_WebhookResponse\<rparr> = Inr w'"
    and "Marshal (res w') = Inr buf"
  shows "fst (newAgent r) = \<lparr>req = r, res = empty_WebhookResponse\<rparr>
         \<and> HandleRequest Unmarshal Marshal handlerMap request
             = Inr (\<lparr>StatusCode = 200,
                     Headers = Some [''Content-Type'' \<mapsto> ''application/json''],
                     Body = buf, IsBase64Encoded = False\<rparr>, None)"
  using assms by (simp add: HandleRequest_def newAgent_def Action_def)

text \<open>
  The scenario of the specification: the README's handler on a request with the
  parameter \<open>name\<close>.
\<close>

theorem registered_handler_gives_200_witness:
  \<open>sample_Unmarshal body_hello = Inr request_hello
   \<and> sample_handlers ''hello'' = Some hello
   \<and> hello (fst (newAgent request_hello)) = Inr (Say ''Hello, Ada'' (fst (newAgent request_hello)))
   \<and> HandleRequest sample_Unmarshal sample_Marshal sample_handlers \<lparr>ProxyReq_Body = body_hello\<rparr>
       = Inr (\<lparr>StatusCode = 200,
               Headers = Some [''Content-Type'' \<mapsto> ''application/json''],
               Body = ''{"fulfillmentText":"Hello, Ada"}'', IsBase64Encoded = False\<rparr>, None)\<close>
proof -
  have a: "fst (newAgent request_hello) = \<lparr>req = request_hello, res = empty_WebhookResponse\<rparr>"
    by (simp add: newAgent_def)
  have b: "Say ''Hello, Ada'' \<lparr>req = request_hello, res = empty_WebhookResponse\<rparr>
             = \<lparr>req = request_hello,
                res = \<lparr>Res_FulfillmentText = ''Hello, Ada'', Res_OutputContexts = [],
                       Res_Payload = None\<rparr>\<rparr>"
    by (simp add: Say_def empty_WebhookResponse_def)
  have s: "hello (fst (newAgent request_hello))
             = Inr (Say ''Hello, Ada'' (fst (newAgent request_hello)))"
    unfolding a b by (rule hello_request_hello)
  have m: "sample_Marshal (res \<lparr>req = request_hello,
             res = \<lparr>Res_FulfillmentText = ''Hello, Ada'', Res_OutputContexts = [],
                    Res_Payload = None\<rparr>\<rparr>) = Inr ''{\"fulfillmentText\":\"Hello, Ada\"}''"
    by (simp add: sample_Marshal_hello)
  from registered_handler_gives_200[where Unmarshal = sample_Unmarshal
      and Marshal = sample_Marshal and handlerMap = sample_handlers,
      OF trans[OF sample_Unmarshal_request sample_Unmarshal_hello]
        QueryResult_request_hello sample_handlers_request_hello hello_request_hello m]
    s sample_Unmarshal_hello sample_handlers_hello
  show ?thesis by simp
qed

end
